theory Spec2Isabelle
  imports Main "HOL-Library.Word"
begin

section \<open>Python values used by socks.py\<close>

type_synonym byte = "8 word"
type_synonym bytes = "byte list"

text \<open>The exceptions that can travel through the code. \<open>OSError_EBADF\<close> is the
  \<open>OSError\<close> a socket method raises once the socket object has been closed;
  \<open>OSError_other\<close> stands for every other \<open>OSError\<close> of the network (host unreachable,
  broken pipe, ...). Only \<open>KeyboardInterrupt\<close> is not a subclass of \<open>Exception\<close>.\<close>

datatype exn =
    StructError
  | AddressValueError
  | AttributeError
  | NameError
  | ValueError
  | SocketTimeout
  | ConnectionRefusedError
  | ConnectionResetError
  | OSError_EBADF
  | OSError_other
  | KeyboardInterrupt

definition BUFSIZE :: int where "BUFSIZE = 4096"
definition CONNECT_TIMEOUT :: int where "CONNECT_TIMEOUT = 20"
definition VN :: int where "VN = 0"
definition CLIENT_VN :: int where "CLIENT_VN = 4"
definition REQUEST_TYPE_CONNECT :: int where "REQUEST_TYPE_CONNECT = 1"
definition REQUEST_TYPE_BIND :: int where "REQUEST_TYPE_BIND = 2"
definition CD_REQUEST_GRANTED :: int where "CD_REQUEST_GRANTED = 90"
definition CD_REQUEST_REJECTED :: int where "CD_REQUEST_REJECTED = 91"

subsection \<open>Slices\<close>

text \<open>Python's \<open>xs[a:b]\<close> on a sequence of length \<open>n\<close>: a negative bound counts from
  the end, and every bound is clamped to \<open>0..n\<close>. \<open>None\<close> is an omitted bound.\<close>

definition slice_bound :: "nat \<Rightarrow> int \<Rightarrow> nat" where
  "slice_bound n i = (if i < 0 then nat (max 0 (int n + i)) else min n (nat i))"

definition py_slice :: "'a list \<Rightarrow> int option \<Rightarrow> int option \<Rightarrow> 'a list" where
  "py_slice xs a b =
     (let n = length xs;
          lo = (case a of None \<Rightarrow> 0 | Some i \<Rightarrow> slice_bound n i);
          hi = (case b of None \<Rightarrow> n | Some j \<Rightarrow> slice_bound n j)
      in take (hi - lo) (drop lo xs))"

subsection \<open>struct, format \<open>>BBHL\<close>\<close>

text \<open>Big-endian, no padding: two unsigned bytes, an unsigned 16-bit and an unsigned
  32-bit integer, 8 bytes in all. \<open>unpack\<close> raises \<open>struct.error\<close> on a buffer of
  another length, \<open>pack\<close> on an argument out of its field's range.\<close>

definition be_uint :: "bytes \<Rightarrow> int" where
  "be_uint bs = foldl (\<lambda>acc b. acc * 256 + uint b) 0 bs"

fun be_bytes :: "nat \<Rightarrow> int \<Rightarrow> bytes" where
  "be_bytes 0 v = []"
| "be_bytes (Suc k) v = be_bytes k (v div 256) @ [word_of_int (v mod 256)]"

definition struct_unpack_BBHL :: "bytes \<Rightarrow> exn + (int \<times> int \<times> int \<times> int)" where
  "struct_unpack_BBHL bs =
     (if length bs = 8
      then Inr (uint (bs ! 0), uint (bs ! 1), be_uint (take 2 (drop 2 bs)), be_uint (drop 4 bs))
      else Inl StructError)"

definition struct_pack_BBHL :: "int \<Rightarrow> int \<Rightarrow> int \<Rightarrow> int \<Rightarrow> exn + bytes" where
  "struct_pack_BBHL a b h l =
     (if 0 \<le> a \<and> a < 256 \<and> 0 \<le> b \<and> b < 256 \<and> 0 \<le> h \<and> h < 65536 \<and> 0 \<le> l \<and> l < 4294967296
      then Inr (be_bytes 1 a @ be_bytes 1 b @ be_bytes 2 h @ be_bytes 4 l)
      else Inl StructError)"

subsection \<open>ipaddress.IPv4Address(n).exploded\<close>

fun str_nat :: "nat \<Rightarrow> string" where
  "str_nat n =
     (if n < 10 then [char_of (48 + n)]
      else str_nat (n div 10) @ [char_of (48 + n mod 10)])"

declare str_nat.simps [simp del]

fun join_dots :: "string list \<Rightarrow> string" where
  "join_dots [] = []"
| "join_dots [x] = x"
| "join_dots (x # y # ys) = x @ ''.'' @ join_dots (y # ys)"

definition IPv4Address_exploded :: "int \<Rightarrow> exn + string" where
  "IPv4Address_exploded n =
     (if 0 \<le> n \<and> n < 4294967296
      then Inr (join_dots (map (\<lambda>b. str_nat (unat b)) (be_bytes 4 n)))
      else Inl AddressValueError)"

section \<open>ClientRequest\<close>

text \<open>The attributes \<open>cd\<close>, \<open>dst_port\<close>, \<open>dst_ip\<close> and \<open>userid\<close> are assigned only
  past the length check; \<open>None\<close> is an attribute that was never assigned.\<close>

record ClientRequest =
  invalid :: bool
  cd :: "int option"
  dst_port :: "int option"
  dst_ip :: "string option"
  userid :: "bytes option"

definition ClientRequest_init :: "bytes \<Rightarrow> exn + ClientRequest" where
  "ClientRequest_init data =
     (let self = \<lparr>invalid = False, cd = None, dst_port = None, dst_ip = None, userid = None\<rparr>
      in if int (length data) < 9 then Inr (self\<lparr>invalid := True\<rparr>)
         else
           (case struct_unpack_BBHL (py_slice data None (Some 8)) of
              Inl e \<Rightarrow> Inl e
            | Inr (vn, cd0, port0, ip0) \<Rightarrow>
                (let self = (if vn \<noteq> CLIENT_VN then self\<lparr>invalid := True\<rparr> else self);
                     self = self\<lparr>cd := Some cd0\<rparr>;
                     self = (if cd0 \<noteq> REQUEST_TYPE_CONNECT \<and> cd0 \<noteq> REQUEST_TYPE_BIND
                             then self\<lparr>invalid := True\<rparr> else self);
                     self = self\<lparr>dst_port := Some port0\<rparr>
                 in (case IPv4Address_exploded ip0 of
                       Inl e \<Rightarrow> Inl e
                     | Inr ip \<Rightarrow>
                         Inr (self\<lparr>dst_ip := Some ip,
                                   userid := Some (py_slice data (Some 8) (Some (- 1)))\<rparr>)))))"

definition isInvalid :: "ClientRequest \<Rightarrow> bool" where
  "isInvalid self = invalid self"

section \<open>Sockets, the network and the record of what was done\<close>

text \<open>One client's session has two sockets: the accepted connection and the outbound
  one that \<open>_process_connect_request\<close> creates.\<close>

datatype sock = ClientConn | ServerConn

text \<open>Every socket call the code makes is recorded, in order, with its outcome
  (\<open>None\<close>: the call returned; \<open>Some e\<close>: it raised \<open>e\<close>).\<close>

datatype event =
    Socket_create sock
  | Settimeout sock int
  | Connect sock string int "exn option"
  | Send sock bytes "exn option"
  | Sendall sock bytes "exn option"
  | Recv sock int "exn + bytes"
  | Select "sock list" "sock list"
  | Close sock
  | Thread_start sock sock

record world =
  closed :: "sock set"
  trace :: "event list"

definition world0 :: world where
  "world0 = \<lparr>closed = {}, trace = []\<rparr>"

text \<open>What the network does to one accepted connection: whether \<open>accept\<close> itself
  raises, what the first \<open>recv\<close> returns, how the outbound \<open>connect\<close> ends and how a
  \<open>send\<close> on the (still open) client socket ends.\<close>

record conn_env =
  accept_result :: "exn option"
  first_recv :: "exn + bytes"
  dial :: "exn option"
  client_send :: "exn option"

definition emit :: "event \<Rightarrow> world \<Rightarrow> world" where
  "emit e w = w\<lparr>trace := trace w @ [e]\<rparr>"

definition sock_close :: "sock \<Rightarrow> world \<Rightarrow> world" where
  "sock_close s w = emit (Close s) (w\<lparr>closed := insert s (closed w)\<rparr>)"

text \<open>A method called on a closed socket object raises \<open>OSError\<close> (bad file descriptor)
  whatever the network would have done.\<close>

definition sock_connect ::
  "exn option \<Rightarrow> sock \<Rightarrow> string \<Rightarrow> int \<Rightarrow> world \<Rightarrow> (exn + unit) \<times> world" where
  "sock_connect outcome s ip p w =
     (let r = (if s \<in> closed w then Some OSError_EBADF else outcome)
      in (case r of Some e \<Rightarrow> Inl e | None \<Rightarrow> Inr (), emit (Connect s ip p r) w))"

definition sock_send ::
  "exn option \<Rightarrow> sock \<Rightarrow> bytes \<Rightarrow> world \<Rightarrow> (exn + unit) \<times> world" where
  "sock_send outcome s data w =
     (let r = (if s \<in> closed w then Some OSError_EBADF else outcome)
      in (case r of Some e \<Rightarrow> Inl e | None \<Rightarrow> Inr (), emit (Send s data r) w))"

definition sock_sendall ::
  "exn option \<Rightarrow> sock \<Rightarrow> bytes \<Rightarrow> world \<Rightarrow> (exn + unit) \<times> world" where
  "sock_sendall outcome s data w =
     (let r = (if s \<in> closed w then Some OSError_EBADF else outcome)
      in (case r of Some e \<Rightarrow> Inl e | None \<Rightarrow> Inr (), emit (Sendall s data r) w))"

definition sock_recv ::
  "(exn + bytes) \<Rightarrow> sock \<Rightarrow> int \<Rightarrow> world \<Rightarrow> (exn + bytes) \<times> world" where
  "sock_recv outcome s n w =
     (let r = (if s \<in> closed w then Inl OSError_EBADF else outcome)
      in (r, emit (Recv s n r) w))"

section \<open>SocksProxy: the request handlers\<close>

record SocksProxy =
  host :: string
  port :: int
  bufsize :: int
  backlog :: int

definition build_reply :: "int \<Rightarrow> int \<Rightarrow> int \<Rightarrow> exn + bytes" where
  "build_reply code p a = struct_pack_BBHL VN code p a"

text \<open>\<open>conn.send(self._build_reply(code))\<close>, as lines 108, 111, 119 and 127 have it: no
  call passes \<open>dst_port\<close> or \<open>dst_ip\<close>, so both take their default, 0.\<close>

definition send_reply :: "conn_env \<Rightarrow> sock \<Rightarrow> int \<Rightarrow> world \<Rightarrow> (exn + unit) \<times> world" where
  "send_reply env conn code w =
     (case build_reply code 0 0 of
        Inl e \<Rightarrow> (Inl e, w)
      | Inr reply \<Rightarrow> sock_send (client_send env) conn reply w)"

text \<open>Lines 111 to 115: the GRANTED reply and the start of the relay thread. They
  follow the \<open>try\<close> statement, so they run after a connect that returned and also
  after the \<open>except socket.timeout\<close> block, which does not return.\<close>

definition connect_granted :: "conn_env \<Rightarrow> sock \<Rightarrow> sock \<Rightarrow> world \<Rightarrow> (exn + unit) \<times> world" where
  "connect_granted env clientConn serverConn w =
     (case send_reply env clientConn CD_REQUEST_GRANTED w of
        (Inl e, w1) \<Rightarrow> (Inl e, w1)
      | (Inr u, w1) \<Rightarrow> (Inr (), emit (Thread_start clientConn serverConn) w1))"

definition process_connect_request ::
  "conn_env \<Rightarrow> ClientRequest \<Rightarrow> sock \<Rightarrow> world \<Rightarrow> (exn + unit) \<times> world" where
  "process_connect_request env clientRequest clientConn w0 =
     (let serverConn = ServerConn;
          w1 = emit (Socket_create serverConn) w0;
          w2 = emit (Settimeout serverConn CONNECT_TIMEOUT) w1
      in (case (dst_ip clientRequest, dst_port clientRequest) of
            (Some ip, Some p) \<Rightarrow>
              (case sock_connect (dial env) serverConn ip p w2 of
                 (Inl e, w3) \<Rightarrow>
                   if e = SocketTimeout
                   then (let w4 = sock_close serverConn w3
                         in (case send_reply env clientConn CD_REQUEST_REJECTED w4 of
                               (Inl e', w5) \<Rightarrow> (Inl e', w5)
                             | (Inr u, w5) \<Rightarrow>
                                 connect_granted env clientConn serverConn
                                   (sock_close clientConn w5)))
                   else (Inl e, w3)
               | (Inr u, w3) \<Rightarrow> connect_granted env clientConn serverConn w3)
          | (x, y) \<Rightarrow> (Inl AttributeError, w2)))"

definition process_bind_request ::
  "conn_env \<Rightarrow> ClientRequest \<Rightarrow> sock \<Rightarrow> world \<Rightarrow> (exn + unit) \<times> world" where
  "process_bind_request env clientRequest clientConn w =
     (case send_reply env clientConn CD_REQUEST_REJECTED w of
        (Inl e, w1) \<Rightarrow> (Inl e, w1)
      | (Inr u, w1) \<Rightarrow> (Inr (), sock_close clientConn w1))"

definition process_request ::
  "conn_env \<Rightarrow> bytes \<Rightarrow> sock \<Rightarrow> world \<Rightarrow> (exn + unit) \<times> world" where
  "process_request env data clientConn w =
     (case ClientRequest_init data of
        Inl e \<Rightarrow> (Inl e, w)
      | Inr clientRequest \<Rightarrow>
          if isInvalid clientRequest
          then (case send_reply env clientConn CD_REQUEST_REJECTED w of
                  (Inl e, w1) \<Rightarrow> (Inl e, w1)
                | (Inr u, w1) \<Rightarrow> (Inr (), sock_close clientConn w1))
          else (case cd clientRequest of
                  None \<Rightarrow> (Inl AttributeError, w)
                | Some c \<Rightarrow>
                    if c = REQUEST_TYPE_CONNECT
                    then process_connect_request env clientRequest clientConn w
                    else process_bind_request env clientRequest clientConn w))"

section \<open>SocksProxy: the relay\<close>

text \<open>One turn of the \<open>while\<close> loop sees what the network offers at that moment: the
  sockets \<open>select\<close> finds readable and those it finds in error, what a \<open>recv\<close> on a
  socket returns, and how a \<open>sendall\<close> to a socket ends.\<close>

record round =
  readable :: "sock list"
  in_error :: "sock list"
  recv_result :: "sock \<Rightarrow> exn + bytes"
  sendall_result :: "sock \<Rightarrow> exn option"

text \<open>\<open>select.select(rlist, [], xlist)\<close> returns the members of \<open>rlist\<close> that are
  readable and the members of \<open>xlist\<close> that are in error, each in the order of its
  argument. It raises \<open>ValueError\<close> when a socket in either list is closed.\<close>

definition select_call ::
  "round \<Rightarrow> sock list \<Rightarrow> sock list \<Rightarrow> world \<Rightarrow> (exn + sock list \<times> sock list) \<times> world" where
  "select_call rd rlist xlist w =
     (if list_ex (\<lambda>s. s \<in> closed w) (rlist @ xlist) then (Inl ValueError, w)
      else (let ready = filter (\<lambda>s. s \<in> set (readable rd)) rlist;
                err = filter (\<lambda>s. s \<in> set (in_error rd)) xlist
            in (Inr (ready, err), emit (Select ready err) w)))"

text \<open>The names bound at module level in socks.py (imports, constants, the two
  classes, and \<open>proxy\<close> when the file runs as a script), and the local names of
  \<open>_forward_connection\<close>.\<close>

definition module_globals :: "string list" where
  "module_globals =
     [''socket'', ''threading'', ''select'', ''sys'', ''struct'', ''ipaddress'',
      ''HOST'', ''PORT'', ''BUFSIZE'', ''BACKLOG'', ''CONNECT_TIMEOUT'', ''VN'', ''CLIENT_VN'',
      ''REQUEST_TYPE_CONNECT'', ''REQUEST_TYPE_BIND'', ''CD_REQUEST_GRANTED'',
      ''CD_REQUEST_REJECTED'', ''ClientRequest'', ''SocksProxy'', ''proxy'']"

definition forward_connection_locals :: "string list" where
  "forward_connection_locals =
     [''self'', ''src'', ''dest'', ''ready'', ''_'', ''err'', ''s'', ''data'']"

text \<open>The method \<open>_close_all\<close> (lines 136 to 138).\<close>

definition close_all :: "sock list \<Rightarrow> world \<Rightarrow> world" where
  "close_all socks w = foldl (\<lambda>w' s. sock_close s w') w socks"

text \<open>The statements \<open>_close_all([src, dest]); return\<close> of lines 146, 154 and 159. The
  name is written without \<open>self.\<close>, so Python resolves it among the locals of the
  function, then the globals of the module, then the builtins (no builtin has this
  name); the attributes of the class are in none of these scopes, and a name found in
  none raises \<open>NameError\<close>.\<close>

datatype relay_result = Returned | Raised exn | Waiting

definition close_all_and_return :: "sock list \<Rightarrow> world \<Rightarrow> relay_result \<times> world" where
  "close_all_and_return socks w =
     (if ''_close_all'' \<in> set (forward_connection_locals @ module_globals)
      then (Returned, close_all socks w)
      else (Raised NameError, w))"

text \<open>The \<open>for s in ready\<close> loop of one turn. \<open>None\<close>: the loop ran to its end and the
  \<open>while\<close> loop goes on; \<open>Some r\<close>: the function ended with \<open>r\<close>.\<close>

fun relay_ready ::
  "round \<Rightarrow> sock \<Rightarrow> sock \<Rightarrow> sock list \<Rightarrow> world \<Rightarrow> relay_result option \<times> world" where
  "relay_ready rd src dest [] w = (None, w)"
| "relay_ready rd src dest (s # ss) w =
     (case sock_recv (recv_result rd s) s BUFSIZE w of
        (Inl e, w1) \<Rightarrow>
          if e = ConnectionResetError
          then (case close_all_and_return [src, dest] w1 of (r, w2) \<Rightarrow> (Some r, w2))
          else (Some (Raised e), w1)
      | (Inr data, w1) \<Rightarrow>
          if data = []
          then (case close_all_and_return [src, dest] w1 of (r, w2) \<Rightarrow> (Some r, w2))
          else (let target = (if s = src then dest else src)
                in (case sock_sendall (sendall_result rd target) target data w1 of
                      (Inl e, w2) \<Rightarrow> (Some (Raised e), w2)
                    | (Inr u, w2) \<Rightarrow> relay_ready rd src dest ss w2)))"

text \<open>The \<open>while True\<close> loop, one turn for each round of the network's script. When the
  script is used up the function is blocked in \<open>select\<close>: \<open>Waiting\<close>.\<close>

fun forward_connection ::
  "sock \<Rightarrow> sock \<Rightarrow> round list \<Rightarrow> world \<Rightarrow> relay_result \<times> world" where
  "forward_connection src dest [] w = (Waiting, w)"
| "forward_connection src dest (rd # rds) w =
     (case select_call rd [src, dest] [src, dest] w of
        (Inl e, w1) \<Rightarrow> (Raised e, w1)
      | (Inr (ready, err), w1) \<Rightarrow>
          if err \<noteq> [] then close_all_and_return [src, dest] w1
          else (case relay_ready rd src dest ready w1 of
                  (Some r, w2) \<Rightarrow> (r, w2)
                | (None, w2) \<Rightarrow> forward_connection src dest rds w2))"

section \<open>SocksProxy: the listener\<close>

datatype listener_event =
    Listen string int int
  | Accept "exn option"
  | First_recv int "exn + bytes"
  | Handled "event list"
  | Listener_close
  | Sys_exit int

datatype listener_result = Listening | Exited int

text \<open>The body of the \<open>try\<close> statement in \<open>start\<close>, for the next connection: accept,
  one \<open>recv\<close>, \<open>_process_request\<close>. The accepted connection and the outbound socket of
  its handler are new sockets, so the handler starts from \<open>world0\<close>.\<close>

definition loop_body :: "SocksProxy \<Rightarrow> conn_env \<Rightarrow> (exn + unit) \<times> listener_event list" where
  "loop_body self env =
     (case accept_result env of
        Some e \<Rightarrow> (Inl e, [Accept (Some e)])
      | None \<Rightarrow>
          (case first_recv env of
             Inl e \<Rightarrow> (Inl e, [Accept None, First_recv (bufsize self) (Inl e)])
           | Inr data \<Rightarrow>
               (case process_request env data ClientConn world0 of
                  (r, w) \<Rightarrow>
                    (r, [Accept None, First_recv (bufsize self) (Inr data), Handled (trace w)]))))"

text \<open>The \<open>while True\<close> loop of \<open>start\<close>, one turn for each connection the network
  brings. When none is left the loop is blocked in \<open>accept\<close>: \<open>Listening\<close>. Both
  \<open>except\<close> clauses close the listening socket and call \<open>sys.exit\<close>: with 0 for
  \<open>KeyboardInterrupt\<close>, with 1 for every \<open>Exception\<close>.\<close>

fun serve :: "SocksProxy \<Rightarrow> conn_env list \<Rightarrow> listener_result \<times> listener_event list" where
  "serve self [] = (Listening, [])"
| "serve self (env # envs) =
     (case loop_body self env of
        (Inr u, evs) \<Rightarrow> (case serve self envs of (r, evs') \<Rightarrow> (r, evs @ evs'))
      | (Inl e, evs) \<Rightarrow>
          if e = KeyboardInterrupt
          then (Exited 0, evs @ [Listener_close, Sys_exit 0])
          else (Exited 1, evs @ [Listener_close, Sys_exit 1]))"

definition start :: "SocksProxy \<Rightarrow> conn_env list \<Rightarrow> listener_result \<times> listener_event list" where
  "start self envs =
     (case serve self envs of
        (r, evs) \<Rightarrow> (r, Listen (host self) (port self) (backlog self) # evs))"

section \<open>Reading the record\<close>

text \<open>The payloads of the \<open>send\<close> calls made on a socket, in order.\<close>

fun send_payload :: "sock \<Rightarrow> event \<Rightarrow> bytes list" where
  "send_payload s (Send s' d r) = (if s' = s then [d] else [])"
| "send_payload s ev = []"

definition sends :: "sock \<Rightarrow> event list \<Rightarrow> bytes list" where
  "sends s tr = concat (map (send_payload s) tr)"

text \<open>The replies that reached a socket: the payloads of the \<open>send\<close> calls on it that
  returned, in order. A \<open>send\<close> that raised handed nothing to the network.\<close>

fun delivered_payload :: "sock \<Rightarrow> event \<Rightarrow> bytes list" where
  "delivered_payload s (Send s' d None) = (if s' = s then [d] else [])"
| "delivered_payload s ev = []"

definition delivered :: "sock \<Rightarrow> event list \<Rightarrow> bytes list" where
  "delivered s tr = concat (map (delivered_payload s) tr)"

text \<open>Whether a relay thread was started.\<close>

fun is_thread_start :: "event \<Rightarrow> bool" where
  "is_thread_start (Thread_start c d) = True"
| "is_thread_start ev = False"

definition relay_started :: "event list \<Rightarrow> bool" where
  "relay_started tr = list_ex is_thread_start tr"

text \<open>The number of \<open>connect\<close> calls.\<close>

fun is_connect :: "event \<Rightarrow> bool" where
  "is_connect (Connect s ip p r) = True"
| "is_connect ev = False"

definition connect_count :: "event list \<Rightarrow> nat" where
  "connect_count tr = length (filter is_connect tr)"

text \<open>The non-empty buffers that \<open>recv\<close> returned from a socket, the buffers handed to
  \<open>sendall\<close> on a socket, and the exceptions that \<open>sendall\<close> calls raised.\<close>

fun read_payload :: "sock \<Rightarrow> event \<Rightarrow> bytes list" where
  "read_payload s (Recv s' n (Inr d)) = (if s' = s \<and> d \<noteq> [] then [d] else [])"
| "read_payload s ev = []"

definition reads :: "sock \<Rightarrow> event list \<Rightarrow> bytes list" where
  "reads s tr = concat (map (read_payload s) tr)"

fun sendall_payload :: "sock \<Rightarrow> event \<Rightarrow> bytes list" where
  "sendall_payload s (Sendall s' d r) = (if s' = s then [d] else [])"
| "sendall_payload s ev = []"

definition sendalls :: "sock \<Rightarrow> event list \<Rightarrow> bytes list" where
  "sendalls s tr = concat (map (sendall_payload s) tr)"

fun sendall_failure :: "event \<Rightarrow> exn list" where
  "sendall_failure (Sendall s d (Some e)) = [e]"
| "sendall_failure ev = []"

definition sendall_failures :: "event list \<Rightarrow> exn list" where
  "sendall_failures tr = concat (map sendall_failure tr)"

text \<open>The number of \<open>accept\<close> calls of the listener.\<close>

fun is_accept :: "listener_event \<Rightarrow> bool" where
  "is_accept (Accept r) = True"
| "is_accept ev = False"

definition accepts :: "listener_event list \<Rightarrow> nat" where
  "accepts evs = length (filter is_accept evs)"

section \<open>The running proxy and sample inputs\<close>

definition HOST :: string where "HOST = ''0.0.0.0''"
definition PORT :: int where "PORT = 12345"
definition BACKLOG :: int where "BACKLOG = 10"

text \<open>\<open>proxy = SocksProxy(HOST, PORT, BUFSIZE, BACKLOG)\<close>, as the script creates it.\<close>

definition proxy :: SocksProxy where
  "proxy = \<lparr>host = HOST, port = PORT, bufsize = BUFSIZE, backlog = BACKLOG\<rparr>"

text \<open>Requests on the wire: CONNECT to 127.0.0.1:8080, CONNECT to 0.0.0.0:8080 and
  BIND for 127.0.0.1:8080, each with an empty user id and its NUL byte. A network that
  delivers a request in the first \<open>recv\<close>, ends the dial as given and accepts every
  \<open>send\<close>; the same network with a client that is gone, so that a \<open>send\<close> to it
  raises. A round of the relay in which nothing fails.\<close>

abbreviation connect_localhost :: bytes where
  "connect_localhost \<equiv> [4, 1, 0x1F, 0x90, 0x7F, 0, 0, 1, 0]"

abbreviation connect_unspecified :: bytes where
  "connect_unspecified \<equiv> [4, 1, 0x1F, 0x90, 0, 0, 0, 0, 0]"

abbreviation bind_localhost :: bytes where
  "bind_localhost \<equiv> [4, 2, 0x1F, 0x90, 0x7F, 0, 0, 1, 0]"

abbreviation network :: "bytes \<Rightarrow> exn option \<Rightarrow> conn_env" where
  "network data d \<equiv> \<lparr>accept_result = None, first_recv = Inr data, dial = d, client_send = None\<rparr>"

abbreviation network_send_fails :: "bytes \<Rightarrow> exn option \<Rightarrow> exn \<Rightarrow> conn_env" where
  "network_send_fails data d e \<equiv>
     \<lparr>accept_result = None, first_recv = Inr data, dial = d, client_send = Some e\<rparr>"

abbreviation quiet_round :: "sock list \<Rightarrow> (sock \<Rightarrow> exn + bytes) \<Rightarrow> round" where
  "quiet_round rs rcv \<equiv>
     \<lparr>readable = rs, in_error = [], recv_result = rcv, sendall_result = (\<lambda>s. None)\<rparr>"

section \<open>Bytes and integers\<close>

lemma be_uint_snoc: "be_uint (bs @ [b]) = be_uint bs * 256 + uint b"
  by (simp add: be_uint_def)

lemma be_uint_bounds: "0 \<le> be_uint bs \<and> be_uint bs < 256 ^ length bs"
proof (induction bs rule: rev_induct)
  case Nil
  show ?case by (simp add: be_uint_def)
next
  case (snoc b bs)
  have b: "0 \<le> uint b" "uint b < 256"
    using uint_bounded [of b] by simp_all
  from snoc b show ?case
    by (simp add: be_uint_snoc)
qed

lemma uint_byte_of_mod: "uint (word_of_int (v mod 256) :: byte) = v mod 256"
  by (simp add: uint_word_of_int)

lemma be_uint_be_bytes: "0 \<le> v \<Longrightarrow> v < 256 ^ k \<Longrightarrow> be_uint (be_bytes k v) = v"
proof (induction k arbitrary: v)
  case 0
  then show ?case by (simp add: be_uint_def)
next
  case (Suc k)
  have "v div 256 < 256 ^ k"
    using Suc.prems by (simp add: div_less_iff_less_mult mult.commute)
  moreover have "0 \<le> v div 256"
    using Suc.prems by simp
  ultimately have "be_uint (be_bytes k (v div 256)) = v div 256"
    by (rule Suc.IH [rotated])
  then show ?case
    by (simp add: be_uint_snoc uint_byte_of_mod)
qed

lemma length_be_bytes: "length (be_bytes k v) = k"
  by (induction k arbitrary: v) simp_all

lemma uint_byte_eq_num:
  "(uint (b::byte) = 4) = (b = 4)" "(uint (b::byte) = 1) = (b = 1)" "(uint (b::byte) = 2) = (b = 2)"
  by (simp_all add: word_uint_eq_iff)

lemma slice_head8: "8 \<le> length data \<Longrightarrow> py_slice data None (Some 8) = take 8 data"
  by (simp add: py_slice_def slice_bound_def Let_def)

lemma slice_userid:
  "9 \<le> length data \<Longrightarrow>
   py_slice data (Some 8) (Some (- 1)) = take (length data - 9) (drop 8 data)"
  by (simp add: py_slice_def slice_bound_def Let_def nat_diff_distrib')

lemma slice_userid_nth:
  "9 \<le> length data \<Longrightarrow>
   py_slice data (Some 8) (Some (- 1)) = map ((!) data) [8..<length data - 1]"
  by (rule nth_equalityI) (auto simp: slice_userid)

section \<open>The request decoder\<close>

text \<open>What the constructor computes on a buffer of 9 bytes or more, field by field.\<close>

lemma decode_long:
  assumes "9 \<le> length data"
  shows "ClientRequest_init data =
     Inr \<lparr>invalid = (data ! 0 \<noteq> 4 \<or> (data ! 1 \<noteq> 1 \<and> data ! 1 \<noteq> 2)),
          cd = Some (uint (data ! 1)),
          dst_port = Some (be_uint (take 2 (drop 2 data))),
          dst_ip = Some (join_dots (map (\<lambda>b. str_nat (unat b))
                     (be_bytes 4 (be_uint (take 4 (drop 4 data)))))),
          userid = Some (py_slice data (Some 8) (Some (- 1)))\<rparr>"
proof -
  have h: "py_slice data None (Some 8) = take 8 data"
    using assms by (simp add: slice_head8)
  have l: "length (take 8 data) = 8"
    using assms by simp
  have d4: "drop 4 (take 8 data) = take 4 (drop 4 data)"
    by (simp add: drop_take)
  have d2: "take 2 (drop 2 (take 8 data)) = take 2 (drop 2 data)"
    by (simp add: drop_take)
  have b: "0 \<le> be_uint (take 4 (drop 4 data)) \<and> be_uint (take 4 (drop 4 data)) < 4294967296"
    using be_uint_bounds [of "take 4 (drop 4 data)"] assms by simp
  show ?thesis
    using assms b
    by (auto simp add: ClientRequest_init_def h struct_unpack_BBHL_def l d4 d2 Let_def
        IPv4Address_exploded_def CLIENT_VN_def REQUEST_TYPE_CONNECT_def REQUEST_TYPE_BIND_def
        uint_byte_eq_num)
qed

lemma decode_short:
  "length data < 9 \<Longrightarrow>
   ClientRequest_init data =
     Inr \<lparr>invalid = True, cd = None, dst_port = None, dst_ip = None, userid = None\<rparr>"
  by (simp add: ClientRequest_init_def)

lemma valid_request_fields:
  assumes "ClientRequest_init data = Inr r" and "\<not> isInvalid r"
  shows "\<exists>ip p. dst_ip r = Some ip \<and> dst_port r = Some p"
proof (cases "length data < 9")
  case True
  with assms show ?thesis
    by (auto simp add: decode_short isInvalid_def)
next
  case False
  then have "9 \<le> length data" by simp
  from decode_long [OF this] assms(1) show ?thesis by auto
qed

text \<open>Claim C2. The constructor never raises, and the request it builds is invalid
  exactly when the buffer has fewer than 9 bytes, or byte 0 is not 4, or byte 1 is
  neither 1 nor 2. Bytes 2 to 7 (port and address) play no part.\<close>

theorem decode_invalid_iff:
  "\<exists>r. ClientRequest_init data = Inr r \<and>
       (isInvalid r \<longleftrightarrow>
          (length data < 9 \<or> data ! 0 \<noteq> 4 \<or> (data ! 1 \<noteq> 1 \<and> data ! 1 \<noteq> 2)))"
proof (cases "length data < 9")
  case True
  then show ?thesis
    by (simp add: decode_short isInvalid_def)
next
  case False
  then have "9 \<le> length data" by simp
  then show ?thesis
    by (simp add: decode_long isInvalid_def)
qed

theorem decode_invalid_iff_witness:
  "\<exists>r. ClientRequest_init [4, 1, 0x1F, 0x90, 0x7F, 0, 0, 1, 0] = Inr r \<and> \<not> isInvalid r"
  using decode_invalid_iff [of "[4, 1, 0x1F, 0x90, 0x7F, 0, 0, 1, 0]"]
  by simp

text \<open>Claim C10. On a buffer of 9 bytes or more the user id is bytes 8 to \<open>len - 2\<close>,
  whatever the last byte is, and the request is valid as soon as byte 0 is 4 and byte 1
  is 1 or 2: no byte is compared with NUL. The witness is a valid buffer with no NUL
  byte, whose last byte (67) is dropped.\<close>

theorem decode_ignores_terminator:
  "9 \<le> length data \<Longrightarrow>
   \<exists>r. ClientRequest_init data = Inr r \<and>
       userid r = Some (map ((!) data) [8..<length data - 1]) \<and>
       (data ! 0 = 4 \<and> (data ! 1 = 1 \<or> data ! 1 = 2) \<longrightarrow> \<not> isInvalid r)"
  by (auto simp add: decode_long slice_userid_nth isInvalid_def)

theorem decode_ignores_terminator_witness:
  "(0::byte) \<notin> set [4, 2, 1, 1, 1, 1, 1, 1, 65, 66, 67] \<and>
   (\<exists>r. ClientRequest_init [4, 2, 1, 1, 1, 1, 1, 1, 65, 66, 67] = Inr r \<and>
        userid r = Some [65, 66] \<and> \<not> isInvalid r)"
  using decode_ignores_terminator [of "[4, 2, 1, 1, 1, 1, 1, 1, 65, 66, 67]"]
  by (simp add: upt_rec)

section \<open>The reply encoder\<close>

lemma reply_rejected: "build_reply CD_REQUEST_REJECTED 0 0 = Inr [0, 91, 0, 0, 0, 0, 0, 0]"
  by (simp add: build_reply_def struct_pack_BBHL_def VN_def CD_REQUEST_REJECTED_def
      numeral_eq_Suc)

lemma reply_granted: "build_reply CD_REQUEST_GRANTED 0 0 = Inr [0, 90, 0, 0, 0, 0, 0, 0]"
  by (simp add: build_reply_def struct_pack_BBHL_def VN_def CD_REQUEST_GRANTED_def
      numeral_eq_Suc)

text \<open>Claim C7. For a port below \<open>2^16\<close> and an address below \<open>2^32\<close> the GRANTED
  reply is 8 bytes long, and unpacking it with the same format gives back version 0,
  code 90, the port and the address.\<close>

theorem granted_reply_roundtrip:
  "0 \<le> P \<Longrightarrow> P < 2 ^ 16 \<Longrightarrow> 0 \<le> A \<Longrightarrow> A < 2 ^ 32 \<Longrightarrow>
   \<exists>bs. build_reply CD_REQUEST_GRANTED P A = Inr bs \<and> length bs = 8 \<and>
        struct_unpack_BBHL bs = Inr (0, 90, P, A)"
proof -
  assume P: "0 \<le> P" "P < 2 ^ 16" and A: "0 \<le> A" "A < 2 ^ 32"
  let ?bs = "be_bytes 1 0 @ be_bytes 1 90 @ be_bytes 2 P @ be_bytes 4 A"
  have enc: "build_reply CD_REQUEST_GRANTED P A = Inr ?bs"
    using P A by (simp add: build_reply_def struct_pack_BBHL_def VN_def CD_REQUEST_GRANTED_def)
  have len: "length ?bs = 8"
    by (simp add: length_be_bytes)
  have p: "be_uint (be_bytes 2 P) = P"
    using P by (intro be_uint_be_bytes) simp_all
  have a: "be_uint (be_bytes 4 A) = A"
    using A by (intro be_uint_be_bytes) simp_all
  have l2: "length (be_bytes 2 P) = 2" and l4: "length (be_bytes 4 A) = 4"
    by (simp_all add: length_be_bytes)
  have one: "be_bytes 1 v = [word_of_int (v mod 256)]" for v
    by (simp add: numeral_eq_Suc)
  have "struct_unpack_BBHL ?bs = Inr (0, 90, be_uint (be_bytes 2 P), be_uint (be_bytes 4 A))"
    using l2 l4 unfolding struct_unpack_BBHL_def
    by (simp add: one length_be_bytes)
  with enc len p a show ?thesis by simp
qed

theorem granted_reply_roundtrip_witness:
  "\<exists>bs. build_reply CD_REQUEST_GRANTED 8080 2130706433 = Inr bs \<and> length bs = 8 \<and>
        struct_unpack_BBHL bs = Inr (0, 90, 8080, 2130706433)"
  using granted_reply_roundtrip [of 8080 2130706433] by simp

section \<open>The request handlers\<close>

text \<open>Claim C9, as the spec states it, fails: a valid BIND request arrives and the
  \<open>send\<close> of the reply raises (the client is gone). Lines 119 and 120 have no
  \<open>try\<close>: the exception leaves the handler and the client connection is not
  closed.\<close>

theorem bind_reject_send_fails:
  "process_request (network_send_fails bind_localhost None ConnectionResetError) bind_localhost
      ClientConn world0 =
    (Inl ConnectionResetError,
     \<lparr>closed = {},
      trace = [Send ClientConn [0, 0x5B, 0, 0, 0, 0, 0, 0] (Some ConnectionResetError)]\<rparr>)"
  by code_simp

text \<open>Claim C9, amended. For every valid BIND request the handler makes one \<open>send\<close>
  call, with the REJECTED reply 00 5B 0000 00000000, as its first call: no socket is
  created and no \<open>connect\<close> is called. When that \<open>send\<close> returns, the next and last
  call closes the client connection and the handler returns. When that \<open>send\<close>
  raises, the exception leaves the handler and the handler closes nothing.\<close>

theorem bind_rejected_and_closed:
  assumes "ClientRequest_init data = Inr r" and "\<not> isInvalid r"
    and "cd r = Some REQUEST_TYPE_BIND"
  shows "process_request env data ClientConn world0 =
           ((case client_send env of None \<Rightarrow> Inr () | Some e \<Rightarrow> Inl e),
            \<lparr>closed = (if client_send env = None then {ClientConn} else {}),
             trace = Send ClientConn [0, 91, 0, 0, 0, 0, 0, 0] (client_send env) #
                       (if client_send env = None then [Close ClientConn] else [])\<rparr>)"
  using assms
  by (auto simp add: process_request_def process_bind_request_def send_reply_def reply_rejected
      sock_send_def sock_close_def emit_def world0_def REQUEST_TYPE_BIND_def
      REQUEST_TYPE_CONNECT_def
      split: option.splits)

theorem bind_rejected_and_closed_witness:
  "process_request (network bind_localhost None) bind_localhost ClientConn world0 =
     (Inr (),
      \<lparr>closed = {ClientConn},
       trace = [Send ClientConn [0, 0x5B, 0, 0, 0, 0, 0, 0] None, Close ClientConn]\<rparr>) \<and>
   process_request (network_send_fails bind_localhost None OSError_other) bind_localhost
       ClientConn world0 =
     (Inl OSError_other,
      \<lparr>closed = {},
       trace = [Send ClientConn [0, 0x5B, 0, 0, 0, 0, 0, 0] (Some OSError_other)]\<rparr>)"
proof -
  have d: "ClientRequest_init bind_localhost =
      Inr \<lparr>invalid = False, cd = Some 2, dst_port = Some 8080, dst_ip = Some ''127.0.0.1'',
           userid = Some []\<rparr>"
    by code_simp
  show ?thesis
    using bind_rejected_and_closed [OF d, of "network bind_localhost None"]
      bind_rejected_and_closed [OF d, of "network_send_fails bind_localhost None OSError_other"]
    by (simp add: isInvalid_def REQUEST_TYPE_BIND_def)
qed

text \<open>Claim C3, as the spec states it, fails: for the CONNECT request to 127.0.0.1:8080
  with a dial that succeeds, the one reply sent is 00 5A 0000 00000000, not
  00 5A 1F90 7F000001.\<close>

theorem granted_reply_not_echoed:
  "sends ClientConn (trace (snd (process_request (network connect_localhost None)
      connect_localhost ClientConn world0))) = [[0, 0x5A, 0, 0, 0, 0, 0, 0]] \<and>
   sends ClientConn (trace (snd (process_request (network connect_localhost None)
      connect_localhost ClientConn world0))) \<noteq> [[0, 0x5A, 0x1F, 0x90, 0x7F, 0, 0, 1]]"
  by code_simp

text \<open>Claim C3, amended. For every valid CONNECT request whose dial succeeds, the handler
  creates the outbound socket, sets its timeout, connects to the request's address and
  port, and sends the client the GRANTED reply 00 5A 0000 00000000: port and address
  fields are zero whatever the request's destination. The relay thread is started when
  that \<open>send\<close> returns.\<close>

theorem granted_reply_zero_filled:
  assumes "ClientRequest_init data = Inr r" and "\<not> isInvalid r"
    and "cd r = Some REQUEST_TYPE_CONNECT" and "dial env = None"
  shows "\<exists>ip p. dst_ip r = Some ip \<and> dst_port r = Some p \<and>
           trace (snd (process_request env data ClientConn world0)) =
             [Socket_create ServerConn, Settimeout ServerConn CONNECT_TIMEOUT,
              Connect ServerConn ip p None,
              Send ClientConn [0, 90, 0, 0, 0, 0, 0, 0] (client_send env)] @
             (if client_send env = None then [Thread_start ClientConn ServerConn] else [])"
proof -
  from valid_request_fields [OF assms(1,2)] obtain ip p
    where f: "dst_ip r = Some ip" "dst_port r = Some p" by blast
  show ?thesis
    using assms f
    by (auto simp add: process_request_def process_connect_request_def connect_granted_def
        send_reply_def reply_granted sock_connect_def
        sock_send_def sock_close_def emit_def world0_def Let_def
        split: option.splits)
qed

theorem granted_reply_zero_filled_witness:
  "trace (snd (process_request (network connect_localhost None) connect_localhost
      ClientConn world0)) =
     [Socket_create ServerConn, Settimeout ServerConn 20,
      Connect ServerConn ''127.0.0.1'' 8080 None,
      Send ClientConn [0, 90, 0, 0, 0, 0, 0, 0] None,
      Thread_start ClientConn ServerConn]"
proof -
  have d: "ClientRequest_init connect_localhost =
      Inr \<lparr>invalid = False, cd = Some 1, dst_port = Some 8080, dst_ip = Some ''127.0.0.1'',
           userid = Some []\<rparr>"
    by code_simp
  show ?thesis
    using granted_reply_zero_filled [OF d, of "network connect_localhost None"]
    by (simp add: isInvalid_def REQUEST_TYPE_CONNECT_def CONNECT_TIMEOUT_def)
qed

text \<open>What the handler does, call by call, at the input of scenario 2 (CONNECT to
  0.0.0.0:8080, the dial times out, every \<open>send\<close> on an open socket is accepted). The
  \<open>except\<close> block has no \<open>return\<close>, so after it line 111 calls \<open>send\<close> with the
  GRANTED reply; the client socket is closed by then, so the call raises \<open>OSError\<close>
  and hands nothing to the network, and the exception leaves the handler before the
  relay thread is created.\<close>

lemma timeout_call_by_call:
  "process_request (network connect_unspecified (Some SocketTimeout)) connect_unspecified
      ClientConn world0 =
    (Inl OSError_EBADF,
     \<lparr>closed = {ClientConn, ServerConn},
      trace = [Socket_create ServerConn, Settimeout ServerConn 20,
               Connect ServerConn ''0.0.0.0'' 8080 (Some SocketTimeout),
               Close ServerConn,
               Send ClientConn [0, 91, 0, 0, 0, 0, 0, 0] None,
               Close ClientConn,
               Send ClientConn [0, 90, 0, 0, 0, 0, 0, 0] (Some OSError_EBADF)]\<rparr>)"
  by code_simp

text \<open>Claim C1, as the spec states it, fails: the dial times out and the \<open>send\<close> of the
  REJECTED reply raises (the client is gone after the wait). The exception leaves the
  \<open>except\<close> block before line 109: no reply has reached the client and the client
  connection is not closed; only the outbound socket is.\<close>

theorem timeout_reject_send_fails:
  "process_request
      (network_send_fails connect_unspecified (Some SocketTimeout) ConnectionResetError)
      connect_unspecified ClientConn world0 =
    (Inl ConnectionResetError,
     \<lparr>closed = {ServerConn},
      trace = [Socket_create ServerConn, Settimeout ServerConn 20,
               Connect ServerConn ''0.0.0.0'' 8080 (Some SocketTimeout),
               Close ServerConn,
               Send ClientConn [0, 0x5B, 0, 0, 0, 0, 0, 0] (Some ConnectionResetError)]\<rparr>)"
  by code_simp

text \<open>Claim C1, amended. For every valid CONNECT request whose dial times out, the handler
  closes the outbound socket and no relay thread is started. When the \<open>send\<close> of the
  REJECTED reply returns, exactly one reply reaches the client, the REJECTED reply
  00 5B 0000 00000000, no GRANTED reply reaches it afterward, and the client
  connection is closed as well. When that \<open>send\<close> raises, no reply reaches the client
  and the client connection is left open.\<close>

theorem timeout_rejected_once:
  assumes "ClientRequest_init data = Inr r" and "\<not> isInvalid r"
    and "cd r = Some REQUEST_TYPE_CONNECT" and "dial env = Some SocketTimeout"
  shows "delivered ClientConn (trace (snd (process_request env data ClientConn world0))) =
           (if client_send env = None then [[0, 91, 0, 0, 0, 0, 0, 0]] else []) \<and>
         closed (snd (process_request env data ClientConn world0)) =
           (if client_send env = None then {ClientConn, ServerConn} else {ServerConn}) \<and>
         \<not> relay_started (trace (snd (process_request env data ClientConn world0)))"
proof -
  from valid_request_fields [OF assms(1,2)] obtain ip p
    where f: "dst_ip r = Some ip" "dst_port r = Some p" by blast
  show ?thesis
    using assms f
    by (auto simp add: process_request_def process_connect_request_def connect_granted_def
        send_reply_def reply_granted reply_rejected sock_connect_def delivered_def
        relay_started_def sock_send_def sock_close_def emit_def world0_def Let_def
        split: option.splits)
qed

theorem timeout_rejected_once_witness:
  "delivered ClientConn (trace (snd (process_request
      (network connect_unspecified (Some SocketTimeout)) connect_unspecified ClientConn world0))) =
     [[0, 0x5B, 0, 0, 0, 0, 0, 0]] \<and>
   closed (snd (process_request
      (network connect_unspecified (Some SocketTimeout)) connect_unspecified ClientConn world0)) =
     {ClientConn, ServerConn} \<and>
   \<not> relay_started (trace (snd (process_request
      (network connect_unspecified (Some SocketTimeout)) connect_unspecified ClientConn world0))) \<and>
   delivered ClientConn (trace (snd (process_request
      (network_send_fails connect_unspecified (Some SocketTimeout) OSError_other)
      connect_unspecified ClientConn world0))) = [] \<and>
   closed (snd (process_request
      (network_send_fails connect_unspecified (Some SocketTimeout) OSError_other)
      connect_unspecified ClientConn world0)) = {ServerConn}"
proof -
  have d: "ClientRequest_init connect_unspecified =
      Inr \<lparr>invalid = False, cd = Some 1, dst_port = Some 8080, dst_ip = Some ''0.0.0.0'',
           userid = Some []\<rparr>"
    by code_simp
  show ?thesis
    using timeout_rejected_once [OF d, of "network connect_unspecified (Some SocketTimeout)"]
      timeout_rejected_once
        [OF d, of "network_send_fails connect_unspecified (Some SocketTimeout) OSError_other"]
    by (simp add: isInvalid_def REQUEST_TYPE_CONNECT_def)
qed

text \<open>Claim C6, as the spec states it, fails: when the dial is refused, the handler sends
  no reply and closes no socket; \<open>ConnectionRefusedError\<close> leaves the handler.\<close>

theorem refused_dial_gets_no_reply:
  "process_request (network connect_localhost (Some ConnectionRefusedError)) connect_localhost
      ClientConn world0 =
    (Inl ConnectionRefusedError,
     \<lparr>closed = {},
      trace = [Socket_create ServerConn, Settimeout ServerConn 20,
               Connect ServerConn ''127.0.0.1'' 8080 (Some ConnectionRefusedError)]\<rparr>)"
  by code_simp

text \<open>Claim C6, amended. For every valid CONNECT request whose dial raises \<open>e\<close>:
  if \<open>e\<close> is the timeout, the handler closes the outbound socket, sends the client the
  REJECTED reply and, when that \<open>send\<close> returns, closes the client connection, so that
  both sockets are closed; \<open>connect\<close> is called once. If \<open>e\<close> is any other exception
  (connection refused, host unreachable), the handler sends nothing and closes nothing,
  and \<open>e\<close> leaves the handler.\<close>

theorem dial_failure_handling:
  assumes "ClientRequest_init data = Inr r" and "\<not> isInvalid r"
    and "cd r = Some REQUEST_TYPE_CONNECT" and "dial env = Some e"
  shows "\<exists>ip p. dst_ip r = Some ip \<and> dst_port r = Some p \<and>
           (if e = SocketTimeout
            then take 5 (trace (snd (process_request env data ClientConn world0))) =
                   [Socket_create ServerConn, Settimeout ServerConn CONNECT_TIMEOUT,
                    Connect ServerConn ip p (Some SocketTimeout), Close ServerConn,
                    Send ClientConn [0, 91, 0, 0, 0, 0, 0, 0] (client_send env)] \<and>
                 connect_count (trace (snd (process_request env data ClientConn world0))) = 1 \<and>
                 (client_send env = None \<longrightarrow>
                    trace (snd (process_request env data ClientConn world0)) ! 5 =
                      Close ClientConn \<and>
                    closed (snd (process_request env data ClientConn world0)) =
                      {ClientConn, ServerConn})
            else process_request env data ClientConn world0 =
                   (Inl e,
                    \<lparr>closed = {},
                     trace = [Socket_create ServerConn, Settimeout ServerConn CONNECT_TIMEOUT,
                              Connect ServerConn ip p (Some e)]\<rparr>))"
proof -
  from valid_request_fields [OF assms(1,2)] obtain ip p
    where f: "dst_ip r = Some ip" "dst_port r = Some p" by blast
  show ?thesis
    using assms f
    by (auto simp add: process_request_def process_connect_request_def connect_granted_def
        send_reply_def reply_granted reply_rejected sock_connect_def connect_count_def
        sock_send_def sock_close_def emit_def world0_def Let_def
        split: option.splits)
qed

theorem dial_failure_handling_witness:
  "take 5 (trace (snd (process_request (network connect_unspecified (Some SocketTimeout))
      connect_unspecified ClientConn world0))) =
     [Socket_create ServerConn, Settimeout ServerConn 20,
      Connect ServerConn ''0.0.0.0'' 8080 (Some SocketTimeout), Close ServerConn,
      Send ClientConn [0, 91, 0, 0, 0, 0, 0, 0] None] \<and>
   connect_count (trace (snd (process_request (network connect_unspecified (Some SocketTimeout))
      connect_unspecified ClientConn world0))) = 1 \<and>
   trace (snd (process_request (network connect_unspecified (Some SocketTimeout))
      connect_unspecified ClientConn world0)) ! 5 = Close ClientConn \<and>
   closed (snd (process_request (network connect_unspecified (Some SocketTimeout))
      connect_unspecified ClientConn world0)) = {ClientConn, ServerConn}"
proof -
  have d: "ClientRequest_init connect_unspecified =
      Inr \<lparr>invalid = False, cd = Some 1, dst_port = Some 8080, dst_ip = Some ''0.0.0.0'',
           userid = Some []\<rparr>"
    by code_simp
  show ?thesis
    using dial_failure_handling [OF d, of "network connect_unspecified (Some SocketTimeout)"
        SocketTimeout]
    by (simp add: isInvalid_def REQUEST_TYPE_CONNECT_def CONNECT_TIMEOUT_def)
qed

section \<open>The listener\<close>

lemma accepts_append: "accepts (xs @ ys) = accepts xs + accepts ys"
  by (simp add: accepts_def)

text \<open>Every turn of the loop calls \<open>accept\<close> once.\<close>

lemma accepts_loop_body: "accepts (snd (loop_body self env)) = 1"
  by (simp add: loop_body_def accepts_def split: option.splits sum.splits prod.splits)

text \<open>Where an exception of the loop body comes from: \<open>accept\<close>, the first \<open>recv\<close>, or
  the handling of the request.\<close>

lemma loop_body_raises_iff:
  "fst (loop_body self env) = Inl e \<longleftrightarrow>
     accept_result env = Some e \<or>
     accept_result env = None \<and>
       (first_recv env = Inl e \<or>
        (\<exists>data. first_recv env = Inr data \<and>
                fst (process_request env data ClientConn world0) = Inl e))"
  by (auto simp add: loop_body_def case_prod_beta split: option.splits sum.splits)

lemma serve_all_ok:
  "list_all (\<lambda>env. fst (loop_body self env) = Inr ()) envs \<Longrightarrow>
   fst (serve self envs) = Listening \<and> accepts (snd (serve self envs)) = length envs"
proof (induction envs)
  case Nil
  show ?case by (simp add: accepts_def)
next
  case (Cons env envs)
  obtain evs where b: "loop_body self env = (Inr (), evs)"
    using Cons.prems by (cases "loop_body self env") auto
  have "accepts evs = 1"
    using accepts_loop_body [of self env] b by simp
  with Cons b show ?case
    by (simp add: accepts_append case_prod_beta)
qed

lemma serve_first_exception:
  "list_all (\<lambda>env. fst (loop_body self env) = Inr ()) pre \<Longrightarrow>
   fst (loop_body self env) = Inl e \<Longrightarrow>
   fst (serve self (pre @ env # post)) = Exited (if e = KeyboardInterrupt then 0 else 1) \<and>
   accepts (snd (serve self (pre @ env # post))) = length pre + 1 \<and>
   (\<exists>evs. snd (serve self (pre @ env # post)) =
      evs @ [Listener_close, Sys_exit (if e = KeyboardInterrupt then 0 else 1)])"
proof (induction pre)
  case Nil
  obtain evs where b: "loop_body self env = (Inl e, evs)"
    using Nil.prems by (cases "loop_body self env") auto
  have "accepts evs = 1"
    using accepts_loop_body [of self env] b by simp
  with b show ?case
    by (simp add: accepts_append accepts_def)
next
  case (Cons x pre)
  let ?code = "if e = KeyboardInterrupt then 0 else (1::int)"
  obtain evs where b: "loop_body self x = (Inr (), evs)"
    using Cons.prems by (cases "loop_body self x") auto
  have a: "accepts evs = 1"
    using accepts_loop_body [of self x] b by simp
  from Cons have ih: "fst (serve self (pre @ env # post)) = Exited ?code"
    "accepts (snd (serve self (pre @ env # post))) = length pre + 1"
    "\<exists>evs. snd (serve self (pre @ env # post)) = evs @ [Listener_close, Sys_exit ?code]"
    by simp_all
  from ih(3) obtain evs'
    where e': "snd (serve self (pre @ env # post)) = evs' @ [Listener_close, Sys_exit ?code]"
    by blast
  have "snd (serve self ((x # pre) @ env # post)) =
      (evs @ evs') @ [Listener_close, Sys_exit ?code]"
    using b e' by (simp add: case_prod_beta)
  then have "\<exists>evs. snd (serve self ((x # pre) @ env # post)) =
      evs @ [Listener_close, Sys_exit ?code]"
    by blast
  moreover have "fst (serve self ((x # pre) @ env # post)) = Exited ?code"
    using b ih(1) by (simp add: case_prod_beta)
  moreover have "accepts (snd (serve self ((x # pre) @ env # post))) = length (x # pre) + 1"
    using b ih(2) a by (simp add: accepts_append case_prod_beta)
  ultimately show ?case by blast
qed

lemma accepts_start: "accepts (snd (start self envs)) = accepts (snd (serve self envs))"
  by (simp add: start_def accepts_def case_prod_beta)

lemma fst_start: "fst (start self envs) = fst (serve self envs)"
  by (simp add: start_def case_prod_beta)

text \<open>Claim C5, as the spec states it, fails: two clients connect, the dial for the
  first is refused. The listener closes the listening socket and exits with status 1
  after one \<open>accept\<close>; the second client is never accepted.\<close>

theorem listener_exits_on_refused_dial:
  "fst (start proxy
     [network connect_localhost (Some ConnectionRefusedError),
      network connect_localhost None]) = Exited 1 \<and>
   accepts (snd (start proxy
     [network connect_localhost (Some ConnectionRefusedError),
      network connect_localhost None])) = 1"
  by code_simp

text \<open>Claim C5, amended. The listener accepts the next connection only when the turn for
  the current one (accept, first read, handling of the request) ends without an
  exception: when all turns do, every connection is accepted and the listener is still
  listening. The first turn that raises, whether in \<open>accept\<close> or in the handling of
  that one client, ends the listener: it closes the listening socket and exits, with
  status 0 for \<open>KeyboardInterrupt\<close> and status 1 for every other exception, and no later
  connection is accepted.\<close>

theorem listener_stops_at_first_exception:
  "(list_all (\<lambda>env. fst (loop_body self env) = Inr ()) envs \<longrightarrow>
      fst (start self envs) = Listening \<and> accepts (snd (start self envs)) = length envs) \<and>
   (list_all (\<lambda>env. fst (loop_body self env) = Inr ()) pre \<and>
    fst (loop_body self env) = Inl e \<longrightarrow>
      fst (start self (pre @ env # post)) = Exited (if e = KeyboardInterrupt then 0 else 1) \<and>
      accepts (snd (start self (pre @ env # post))) = length pre + 1 \<and>
      (\<exists>evs. snd (start self (pre @ env # post)) =
         evs @ [Listener_close, Sys_exit (if e = KeyboardInterrupt then 0 else 1)]))"
proof (intro conjI impI)
  assume "list_all (\<lambda>env. fst (loop_body self env) = Inr ()) envs"
  from serve_all_ok [OF this]
  show "fst (start self envs) = Listening" and "accepts (snd (start self envs)) = length envs"
    by (simp_all add: accepts_start fst_start)
next
  let ?code = "if e = KeyboardInterrupt then 0 else (1::int)"
  assume a: "list_all (\<lambda>env. fst (loop_body self env) = Inr ()) pre \<and>
    fst (loop_body self env) = Inl e"
  then have p: "list_all (\<lambda>env. fst (loop_body self env) = Inr ()) pre"
    and b: "fst (loop_body self env) = Inl e" by simp_all
  note s = serve_first_exception [OF p b, of post]
  from s show "fst (start self (pre @ env # post)) = Exited ?code"
    by (simp add: fst_start)
  from s show "accepts (snd (start self (pre @ env # post))) = length pre + 1"
    by (simp add: accepts_start)
  from s obtain evs
    where "snd (serve self (pre @ env # post)) = evs @ [Listener_close, Sys_exit ?code]"
    by blast
  then have "snd (start self (pre @ env # post)) =
      (Listen (host self) (port self) (backlog self) # evs) @ [Listener_close, Sys_exit ?code]"
    by (simp add: start_def case_prod_beta)
  then show "\<exists>evs. snd (start self (pre @ env # post)) = evs @ [Listener_close, Sys_exit ?code]"
    by blast
qed

theorem listener_stops_at_first_exception_witness:
  "fst (start proxy [network connect_localhost None, network bind_localhost None]) = Listening \<and>
   accepts (snd (start proxy [network connect_localhost None, network bind_localhost None])) = 2 \<and>
   fst (start proxy
     [network connect_localhost None,
      network connect_localhost (Some ConnectionRefusedError),
      network bind_localhost None]) = Exited 1 \<and>
   accepts (snd (start proxy
     [network connect_localhost None,
      network connect_localhost (Some ConnectionRefusedError),
      network bind_localhost None])) = 2"
proof -
  have ok2: "list_all (\<lambda>env. fst (loop_body proxy env) = Inr ())
      [network connect_localhost None, network bind_localhost None]"
    by code_simp
  have ok1: "list_all (\<lambda>env. fst (loop_body proxy env) = Inr ())
      [network connect_localhost None]"
    by code_simp
  have bad: "fst (loop_body proxy (network connect_localhost (Some ConnectionRefusedError))) =
      Inl ConnectionRefusedError"
    by code_simp
  show ?thesis
    using listener_stops_at_first_exception
      [of proxy "[network connect_localhost None, network bind_localhost None]"
          "[network connect_localhost None]"
          "network connect_localhost (Some ConnectionRefusedError)"
          ConnectionRefusedError "[network bind_localhost None]"]
      ok2 ok1 bad
    by simp
qed

section \<open>The relay\<close>

lemma close_all_and_return_raises:
  "close_all_and_return socks w = (Raised NameError, w)"
  by (simp add: close_all_and_return_def forward_connection_locals_def module_globals_def)

lemma closed_sock_recv: "closed (snd (sock_recv out s n w)) = closed w"
  by (simp add: sock_recv_def emit_def Let_def)

lemma closed_sock_sendall: "closed (snd (sock_sendall out s d w)) = closed w"
  by (simp add: sock_sendall_def emit_def Let_def)

text \<open>Claim C4. The code at a relay whose destination closes gracefully: \<open>select\<close> reports
  the destination readable, \<open>recv\<close> returns no bytes, and the statement that should
  close both sockets raises \<open>NameError\<close>. Neither socket is closed.\<close>

theorem relay_eof_closes_nothing:
  "forward_connection ClientConn ServerConn [quiet_round [ServerConn] (\<lambda>s. Inr [])] world0 =
   (Raised NameError,
    \<lparr>closed = {}, trace = [Select [ServerConn] [], Recv ServerConn 4096 (Inr [])]\<rparr>)"
  by code_simp

text \<open>On every path, whatever the network does, the relay closes no socket and does
  not return: it is still waiting, or it ended with an exception.\<close>

lemma relay_ready_closed:
  "closed (snd (relay_ready rd src dest ss w)) = closed w \<and>
   fst (relay_ready rd src dest ss w) \<noteq> Some Returned"
proof (induction ss arbitrary: w)
  case Nil
  show ?case by simp
next
  case (Cons s ss)
  obtain r w1 where rv: "sock_recv (recv_result rd s) s BUFSIZE w = (r, w1)"
    by (cases "sock_recv (recv_result rd s) s BUFSIZE w")
  have c1: "closed w1 = closed w"
    using closed_sock_recv [of "recv_result rd s" s BUFSIZE w] rv by simp
  show ?case
  proof (cases r)
    case (Inl e)
    with rv c1 show ?thesis
      by (simp add: close_all_and_return_raises)
  next
    case (Inr data)
    show ?thesis
    proof (cases "data = []")
      case True
      with rv c1 Inr show ?thesis
        by (simp add: close_all_and_return_raises)
    next
      case False
      let ?t = "if s = src then dest else src"
      obtain r2 w2 where sv: "sock_sendall (sendall_result rd ?t) ?t data w1 = (r2, w2)"
        by (cases "sock_sendall (sendall_result rd ?t) ?t data w1")
      have c2: "closed w2 = closed w1"
        using closed_sock_sendall [of "sendall_result rd ?t" ?t data w1] sv by simp
      show ?thesis
      proof (cases r2)
        case (Inl e)
        with rv Inr False sv c1 c2 show ?thesis
          by (simp add: Let_def)
      next
        case (Inr u)
        with rv \<open>r = Inr data\<close> False sv c1 c2 Cons.IH [of w2] show ?thesis
          by (simp add: Let_def)
      qed
    qed
  qed
qed


lemma forward_connection_closed:
  "closed (snd (forward_connection src dest rds w)) = closed w \<and>
   fst (forward_connection src dest rds w) \<noteq> Returned"
proof (induction rds arbitrary: w)
  case Nil
  show ?case by simp
next
  case (Cons rd rds)
  show ?case
  proof (cases "list_ex (\<lambda>s. s \<in> closed w) ([src, dest] @ [src, dest])")
    case True
    then show ?thesis
      by (simp add: select_call_def)
  next
    case False
    let ?ready = "filter (\<lambda>s. s \<in> set (readable rd)) [src, dest]"
    let ?err = "filter (\<lambda>s. s \<in> set (in_error rd)) [src, dest]"
    let ?w1 = "emit (Select ?ready ?err) w"
    have sel: "select_call rd [src, dest] [src, dest] w = (Inr (?ready, ?err), ?w1)"
      using False by (simp add: select_call_def Let_def)
    have c1: "closed ?w1 = closed w"
      by (simp add: emit_def)
    show ?thesis
    proof (cases "?err = []")
      case False
      with sel c1 show ?thesis
        by (simp add: close_all_and_return_raises)
    next
      case True
      obtain res w2 where rr: "relay_ready rd src dest ?ready ?w1 = (res, w2)"
        by (cases "relay_ready rd src dest ?ready ?w1")
      have c2: "closed w2 = closed w" and nr: "res \<noteq> Some Returned"
        using relay_ready_closed [of rd src dest ?ready ?w1] rr c1 by simp_all
      show ?thesis
      proof (cases res)
        case None
        with sel True rr c2 Cons.IH [of w2] show ?thesis by simp
      next
        case (Some r)
        with sel True rr c2 nr show ?thesis by simp
      qed
    qed
  qed
qed

lemma trace_emit: "trace (emit ev w) = trace w @ [ev]"
  by (simp add: emit_def)

lemma reads_simps:
  "reads s (tr @ tr') = reads s tr @ reads s tr'"
  "reads s (ev # tr) = read_payload s ev @ reads s tr"
  "reads s [] = []"
  by (simp_all add: reads_def)

lemma sendalls_simps:
  "sendalls s (tr @ tr') = sendalls s tr @ sendalls s tr'"
  "sendalls s (ev # tr) = sendall_payload s ev @ sendalls s tr"
  "sendalls s [] = []"
  by (simp_all add: sendalls_def)

lemma sendall_failures_simps:
  "sendall_failures (tr @ tr') = sendall_failures tr @ sendall_failures tr'"
  "sendall_failures (ev # tr) = sendall_failure ev @ sendall_failures tr"
  "sendall_failures [] = []"
  by (simp_all add: sendall_failures_def)

lemma sock_recv_eq:
  "sock_recv out s n w = (r, w1) \<Longrightarrow> trace w1 = trace w @ [Recv s n r]"
  by (auto simp add: sock_recv_def emit_def Let_def)

lemma sock_sendall_eq:
  "sock_sendall out s d w = (r, w1) \<Longrightarrow>
   \<exists>x. trace w1 = trace w @ [Sendall s d x] \<and> r = (case x of Some e \<Rightarrow> Inl e | None \<Rightarrow> Inr ())"
  by (auto simp add: sock_sendall_def emit_def Let_def)

text \<open>The invariant of the record, over the \<open>for\<close> loop of one turn.\<close>

lemma relay_ready_inv:
  assumes "sendalls ServerConn (trace w) = reads ClientConn (trace w)"
    and "sendalls ClientConn (trace w) = reads ServerConn (trace w)"
    and "sendall_failures (trace w) = []"
  shows "sendalls ServerConn (trace (snd (relay_ready rd ClientConn ServerConn ss w))) =
           reads ClientConn (trace (snd (relay_ready rd ClientConn ServerConn ss w))) \<and>
         sendalls ClientConn (trace (snd (relay_ready rd ClientConn ServerConn ss w))) =
           reads ServerConn (trace (snd (relay_ready rd ClientConn ServerConn ss w))) \<and>
         (sendall_failures (trace (snd (relay_ready rd ClientConn ServerConn ss w))) = [] \<or>
          (\<exists>e. sendall_failures (trace (snd (relay_ready rd ClientConn ServerConn ss w))) = [e] \<and>
               fst (relay_ready rd ClientConn ServerConn ss w) = Some (Raised e)))"
  using assms
proof (induction ss arbitrary: w)
  case Nil
  then show ?case by simp
next
  case (Cons s ss)
  obtain r w1 where rv: "sock_recv (recv_result rd s) s BUFSIZE w = (r, w1)"
    by (cases "sock_recv (recv_result rd s) s BUFSIZE w")
  note t1 = sock_recv_eq [OF rv]
  show ?case
  proof (cases r)
    case (Inl e)
    with rv t1 Cons.prems show ?thesis
      by (simp add: close_all_and_return_raises reads_simps sendalls_simps sendall_failures_simps)
  next
    case (Inr data)
    show ?thesis
    proof (cases "data = []")
      case True
      with rv t1 Inr Cons.prems show ?thesis
        by (simp add: close_all_and_return_raises reads_simps sendalls_simps sendall_failures_simps)
    next
      case False
      let ?t = "if s = ClientConn then ServerConn else ClientConn"
      obtain r2 w2 where sv: "sock_sendall (sendall_result rd ?t) ?t data w1 = (r2, w2)"
        by (cases "sock_sendall (sendall_result rd ?t) ?t data w1")
      from sock_sendall_eq [OF sv] obtain x
        where t2: "trace w2 = trace w1 @ [Sendall ?t data x]"
          and r2: "r2 = (case x of Some e \<Rightarrow> Inl e | None \<Rightarrow> Inr ())" by blast
      have b1: "sendalls ServerConn (trace w2) = reads ClientConn (trace w2)"
        using t1 t2 Inr False Cons.prems
        by (cases s) (simp_all add: reads_simps sendalls_simps)
      have b2: "sendalls ClientConn (trace w2) = reads ServerConn (trace w2)"
        using t1 t2 Inr False Cons.prems
        by (cases s) (simp_all add: reads_simps sendalls_simps)
      show ?thesis
      proof (cases x)
        case None
        have f: "sendall_failures (trace w2) = []"
          using t1 t2 None Cons.prems by (simp add: sendall_failures_simps)
        have step: "relay_ready rd ClientConn ServerConn (s # ss) w =
            relay_ready rd ClientConn ServerConn ss w2"
          using rv Inr False sv r2 None by (simp add: Let_def)
        show ?thesis
          unfolding step by (rule Cons.IH [OF b1 b2 f])
      next
        case (Some e)
        have f: "sendall_failures (trace w2) = [e]"
          using t1 t2 Some Cons.prems by (simp add: sendall_failures_simps)
        have step: "relay_ready rd ClientConn ServerConn (s # ss) w = (Some (Raised e), w2)"
          using rv Inr False sv r2 Some by (simp add: Let_def)
        show ?thesis
          unfolding step using b1 b2 f by simp
      qed
    qed
  qed
qed

text \<open>Claim C8. In a relay between the client and the destination socket, started with
  both open, the buffers handed to \<open>sendall\<close> on the destination are the non-empty
  buffers read from the client, each whole and in the order read, and the buffers handed
  to \<open>sendall\<close> on the client are those read from the destination. \<open>sendall\<close> sends
  its whole buffer or raises; at most one \<open>sendall\<close> raises, and then the relay ends
  with that exception: nothing is dropped silently.\<close>

theorem relay_forwards_each_read:
  "sendalls ServerConn (trace (snd (forward_connection ClientConn ServerConn rds world0))) =
     reads ClientConn (trace (snd (forward_connection ClientConn ServerConn rds world0))) \<and>
   sendalls ClientConn (trace (snd (forward_connection ClientConn ServerConn rds world0))) =
     reads ServerConn (trace (snd (forward_connection ClientConn ServerConn rds world0))) \<and>
   (sendall_failures (trace (snd (forward_connection ClientConn ServerConn rds world0))) = [] \<or>
    (\<exists>e. sendall_failures (trace (snd (forward_connection ClientConn ServerConn rds world0))) = [e] \<and>
         fst (forward_connection ClientConn ServerConn rds world0) = Raised e))"
proof -
  have inv: "sendalls ServerConn (trace w) = reads ClientConn (trace w) \<Longrightarrow>
     sendalls ClientConn (trace w) = reads ServerConn (trace w) \<Longrightarrow>
     sendall_failures (trace w) = [] \<Longrightarrow>
     sendalls ServerConn (trace (snd (forward_connection ClientConn ServerConn rds w))) =
       reads ClientConn (trace (snd (forward_connection ClientConn ServerConn rds w))) \<and>
     sendalls ClientConn (trace (snd (forward_connection ClientConn ServerConn rds w))) =
       reads ServerConn (trace (snd (forward_connection ClientConn ServerConn rds w))) \<and>
     (sendall_failures (trace (snd (forward_connection ClientConn ServerConn rds w))) = [] \<or>
      (\<exists>e. sendall_failures (trace (snd (forward_connection ClientConn ServerConn rds w))) = [e] \<and>
           fst (forward_connection ClientConn ServerConn rds w) = Raised e))" for w
  proof (induction rds arbitrary: w)
    case Nil
    then show ?case by simp
  next
    case (Cons rd rds)
    show ?case
    proof (cases "list_ex (\<lambda>s. s \<in> closed w) ([ClientConn, ServerConn] @ [ClientConn, ServerConn])")
      case True
      with Cons.prems show ?thesis
        by (simp add: select_call_def)
    next
      case False
      let ?ready = "filter (\<lambda>s. s \<in> set (readable rd)) [ClientConn, ServerConn]"
      let ?err = "filter (\<lambda>s. s \<in> set (in_error rd)) [ClientConn, ServerConn]"
      let ?w1 = "emit (Select ?ready ?err) w"
      have sel: "select_call rd [ClientConn, ServerConn] [ClientConn, ServerConn] w =
          (Inr (?ready, ?err), ?w1)"
        using False by (simp add: select_call_def Let_def)
      have p1: "sendalls ServerConn (trace ?w1) = reads ClientConn (trace ?w1)"
        and p2: "sendalls ClientConn (trace ?w1) = reads ServerConn (trace ?w1)"
        and p3: "sendall_failures (trace ?w1) = []"
        using Cons.prems
        by (simp_all add: trace_emit reads_simps sendalls_simps sendall_failures_simps)
      show ?thesis
      proof (cases "?err = []")
        case False
        with sel p1 p2 p3 show ?thesis
          by (simp add: close_all_and_return_raises)
      next
        case True
        obtain res w2 where rr: "relay_ready rd ClientConn ServerConn ?ready ?w1 = (res, w2)"
          by (cases "relay_ready rd ClientConn ServerConn ?ready ?w1")
        note i = relay_ready_inv [OF p1 p2 p3, of rd ?ready]
        show ?thesis
        proof (cases res)
          case None
          have step: "forward_connection ClientConn ServerConn (rd # rds) w =
              forward_connection ClientConn ServerConn rds w2"
            using sel True rr None by simp
          from i rr None have "sendalls ServerConn (trace w2) = reads ClientConn (trace w2)"
            and "sendalls ClientConn (trace w2) = reads ServerConn (trace w2)"
            and "sendall_failures (trace w2) = []"
            by simp_all
          then show ?thesis
            unfolding step by (rule Cons.IH)
        next
          case (Some r)
          have step: "forward_connection ClientConn ServerConn (rd # rds) w = (r, w2)"
            using sel True rr Some by simp
          from i rr Some show ?thesis
            unfolding step by simp
        qed
      qed
    qed
  qed
  show ?thesis
    by (rule inv) (simp_all add: world0_def reads_simps sendalls_simps sendall_failures_simps)
qed

theorem relay_forwards_each_read_witness:
  "sendalls ServerConn (trace (snd (forward_connection ClientConn ServerConn
      [quiet_round [ServerConn, ClientConn] (\<lambda>s. if s = ClientConn then Inr [1, 2] else Inr [3]),
       quiet_round [ClientConn] (\<lambda>s. Inr [4])] world0))) = [[1, 2], [4]] \<and>
   sendalls ClientConn (trace (snd (forward_connection ClientConn ServerConn
      [quiet_round [ServerConn, ClientConn] (\<lambda>s. if s = ClientConn then Inr [1, 2] else Inr [3]),
       quiet_round [ClientConn] (\<lambda>s. Inr [4])] world0))) = [[3]]"
proof -
  have c: "reads ClientConn (trace (snd (forward_connection ClientConn ServerConn
      [quiet_round [ServerConn, ClientConn] (\<lambda>s. if s = ClientConn then Inr [1, 2] else Inr [3]),
       quiet_round [ClientConn] (\<lambda>s. Inr [4])] world0))) = [[1, 2], [4]]"
    by code_simp
  have d: "reads ServerConn (trace (snd (forward_connection ClientConn ServerConn
      [quiet_round [ServerConn, ClientConn] (\<lambda>s. if s = ClientConn then Inr [1, 2] else Inr [3]),
       quiet_round [ClientConn] (\<lambda>s. Inr [4])] world0))) = [[3]]"
    by code_simp
  show ?thesis
    using relay_forwards_each_read
      [of "[quiet_round [ServerConn, ClientConn]
              (\<lambda>s. if s = ClientConn then Inr [1, 2] else Inr [3]),
            quiet_round [ClientConn] (\<lambda>s. Inr [4])]"] c d
    by simp
qed

end
